theory Spec2Isabelle
  imports Main "HOL-Library.AList"
begin

section \<open>The bootstrap launcher (bootstrap.py)\<close>

text \<open>
  The launcher is a sequence of calls into the Python runtime and the operating system:
  imports, filesystem queries, subprocesses, process replacement. The model threads a
  trace of these calls through every function. What the outside world answers to a call
  (does a file exist, how does a child exit, does an import succeed) is given by a
  \<open>world\<close> record of oracles; each oracle sees the trace so far, so the world may change
  between two calls (creating the virtual environment makes its interpreter exist).
\<close>

subsection \<open>Configuration constants\<close>

definition VENV_DIR_NAME :: string where
  "VENV_DIR_NAME = ''.venv''"

definition REQUIREMENTS_FILE :: string where
  "REQUIREMENTS_FILE = ''requirements.txt''"

definition REQUIRED_IMPORTS :: "string list" where
  "REQUIRED_IMPORTS = [''rich'', ''tomli'']"

definition REQUIRED_PACKAGES :: "string list" where
  "REQUIRED_PACKAGES = [''rich'', ''tomli'']"

subsection \<open>Python values\<close>

text \<open>
  A \<open>pathlib\<close> path is its anchor (drive and root, such as \<open>/\<close>) and its further parts.
  \<open>p / name\<close> appends one part; \<open>str(p)\<close> is the anchor followed by the parts joined with
  the separator of the platform.
\<close>

datatype path = Path (anchor: string) (parts: "string list")

text \<open>The exceptions the launcher can meet. \<open>ModuleNotFoundError\<close> is a subclass of
  \<open>ImportError\<close>, \<open>FileNotFoundError\<close> one of \<open>OSError\<close>; \<open>sys.exit(n)\<close> raises
  \<open>SystemExit n\<close>.\<close>

datatype exn =
    ImportError
  | ModuleNotFoundError
  | OSError
  | FileNotFoundError
  | CalledProcessError int "string list"
  | SystemExit int
  | OtherException string

text \<open>How a call ends: it returns a value, raises, or (a successful \<open>os.execv\<close>) the
  process image is replaced and no Python code of this process runs any more.\<close>

datatype 'a result = Return 'a | Raise exn | Replaced

type_synonym environ = "(string \<times> string) list"

datatype stream = Stdout | Stderr

datatype redirect = Inherited | DEVNULL

datatype event =
    Import string
  | PathExists string
  | Print stream string
  | VenvCreate string bool
  | SubprocessRun "string list" "environ option" redirect redirect
  | Execv string "string list" environ

type_synonym trace = "event list"

datatype spawn_outcome = LaunchFailed | Exited int

record world =
  sys_platform :: string
  sys_argv :: "string list"
  os_environ :: environ
  script_dir :: path
  import_outcome :: "trace \<Rightarrow> string \<Rightarrow> exn option"
  fs_exists :: "trace \<Rightarrow> string \<Rightarrow> bool"
  venv_create_outcome :: "trace \<Rightarrow> string \<Rightarrow> exn option"
  child_outcome :: "trace \<Rightarrow> string list \<Rightarrow> spawn_outcome"
  execv_succeeds :: "trace \<Rightarrow> string \<Rightarrow> string list \<Rightarrow> bool"

subsection \<open>The library calls\<close>

text \<open>\<open>sep.join(xs)\<close>.\<close>

fun str_join :: "string \<Rightarrow> string list \<Rightarrow> string" where
  "str_join sep [] = []"
| "str_join sep [x] = x"
| "str_join sep (x # y # ys) = x @ sep @ str_join sep (y # ys)"

definition path_sep :: "world \<Rightarrow> string" where
  "path_sep w = (if sys_platform w = ''win32'' then [CHR 0x5C] else ''/'')"

definition path_join :: "path \<Rightarrow> string \<Rightarrow> path" where
  "path_join p name = Path (anchor p) (parts p @ [name])"

definition path_str :: "world \<Rightarrow> path \<Rightarrow> string" where
  "path_str w p = anchor p @ str_join (path_sep w) (parts p)"

definition path_exists :: "world \<Rightarrow> path \<Rightarrow> trace \<Rightarrow> bool \<times> trace" where
  "path_exists w p tr = (fs_exists w tr (path_str w p), tr @ [PathExists (path_str w p)])"

definition print :: "stream \<Rightarrow> string \<Rightarrow> trace \<Rightarrow> trace" where
  "print s msg tr = tr @ [Print s msg]"

definition sys_exit :: "int \<Rightarrow> trace \<Rightarrow> 'a result \<times> trace" where
  "sys_exit n tr = (Raise (SystemExit n), tr)"

text \<open>\<open>venv.create(dir, with_pip=...)\<close>: any failure of the creation is an exception.\<close>

definition venv_create :: "world \<Rightarrow> path \<Rightarrow> bool \<Rightarrow> trace \<Rightarrow> unit result \<times> trace" where
  "venv_create w dir with_pip tr =
     (let tr' = tr @ [VenvCreate (path_str w dir) with_pip] in
      case venv_create_outcome w tr (path_str w dir) of
        None \<Rightarrow> (Return (), tr')
      | Some e \<Rightarrow> (Raise e, tr'))"

text \<open>
  \<open>subprocess.run(args, env=..., stdout=..., stderr=..., check=True)\<close>: the child is
  launched and waited for. An executable that does not exist raises \<open>FileNotFoundError\<close>,
  any other failure to launch raises \<open>OSError\<close>, and, because of \<open>check=True\<close>, a child
  that exits non-zero raises \<open>CalledProcessError\<close>.
\<close>

definition subprocess_run ::
  "world \<Rightarrow> string list \<Rightarrow> environ option \<Rightarrow> redirect \<Rightarrow> redirect \<Rightarrow> trace \<Rightarrow> unit result \<times> trace" where
  "subprocess_run w args env out err tr =
     (let tr' = tr @ [SubprocessRun args env out err] in
      case args of
        [] \<Rightarrow> (Raise (OtherException ''IndexError''), tr')
      | exe # _ \<Rightarrow>
          if \<not> fs_exists w tr exe then (Raise FileNotFoundError, tr')
          else (case child_outcome w tr args of
                  LaunchFailed \<Rightarrow> (Raise OSError, tr')
                | Exited rc \<Rightarrow>
                    if rc = 0 then (Return (), tr')
                    else (Raise (CalledProcessError rc args), tr')))"

text \<open>
  \<open>os.execv(path, args)\<close> takes no environment: the new image runs with the environment
  of the calling process, \<open>os.environ\<close>. On success it does not return.
\<close>

definition os_execv :: "world \<Rightarrow> string \<Rightarrow> string list \<Rightarrow> trace \<Rightarrow> unit result \<times> trace" where
  "os_execv w p args tr =
     (let tr' = tr @ [Execv p args (os_environ w)] in
      if \<not> fs_exists w tr p then (Raise FileNotFoundError, tr')
      else if execv_succeeds w tr p args then (Replaced, tr')
      else (Raise OSError, tr'))"

text \<open>The classes named in the \<open>except\<close> clauses.\<close>

fun isinstance_ImportError :: "exn \<Rightarrow> bool" where
  "isinstance_ImportError ImportError = True"
| "isinstance_ImportError ModuleNotFoundError = True"
| "isinstance_ImportError _ = False"

fun isinstance_CalledProcessError :: "exn \<Rightarrow> bool" where
  "isinstance_CalledProcessError (CalledProcessError _ _) = True"
| "isinstance_CalledProcessError _ = False"

subsection \<open>The functions of bootstrap.py\<close>

definition get_venv_paths :: "world \<Rightarrow> path \<Rightarrow> path \<times> path \<times> path" where
  "get_venv_paths w root_dir =
     (let venv_dir = path_join root_dir VENV_DIR_NAME in
      if sys_platform w = ''win32'' then
        (venv_dir,
         path_join (path_join venv_dir ''Scripts'') ''python.exe'',
         path_join (path_join venv_dir ''Scripts'') ''pip.exe'')
      else
        (venv_dir,
         path_join (path_join venv_dir ''bin'') ''python'',
         path_join (path_join venv_dir ''bin'') ''pip''))"

definition check_script :: string where
  "check_script = str_join ''; '' (map (\<lambda>pkg. ''import '' @ pkg) REQUIRED_IMPORTS)"

definition check_venv_integrity :: "world \<Rightarrow> path \<Rightarrow> trace \<Rightarrow> bool result \<times> trace" where
  "check_venv_integrity w python_executable tr =
     (case path_exists w python_executable tr of
        (ex, tr1) \<Rightarrow>
          if \<not> ex then (Return False, tr1)
          else (case subprocess_run w [path_str w python_executable, ''-c'', check_script]
                       None DEVNULL DEVNULL tr1 of
                  (Return _, tr2) \<Rightarrow> (Return True, tr2)
                | (Raise e, tr2) \<Rightarrow>
                    if isinstance_CalledProcessError e then (Return False, tr2)
                    else (Raise e, tr2)
                | (Replaced, tr2) \<Rightarrow> (Replaced, tr2)))"

definition create_venv_if_missing :: "world \<Rightarrow> path \<Rightarrow> trace \<Rightarrow> unit result \<times> trace" where
  "create_venv_if_missing w venv_dir tr =
     (case path_exists w venv_dir tr of
        (ex, tr1) \<Rightarrow>
          if \<not> ex then
            venv_create w venv_dir True
              (print Stdout (''[Bootstrap] Creating virtual environment at: ''
                              @ path_str w venv_dir @ ''...'') tr1)
          else (Return (), tr1))"

definition base_cmd :: "world \<Rightarrow> path \<Rightarrow> string list" where
  "base_cmd w pip_executable =
     [path_str w pip_executable, ''install'', ''--disable-pip-version-check'',
      ''-i'', ''https://pypi.tuna.tsinghua.edu.cn/simple'']"

definition install_dependencies :: "world \<Rightarrow> path \<Rightarrow> path \<Rightarrow> trace \<Rightarrow> unit result \<times> trace" where
  "install_dependencies w root_dir pip_executable tr =
     (let req_path = path_join root_dir REQUIREMENTS_FILE;
          tr1 = print Stdout ''[Bootstrap] Installing dependencies...'' tr
      in case path_exists w req_path tr1 of
        (ex, tr2) \<Rightarrow>
          (case (if ex then
                   subprocess_run w (base_cmd w pip_executable @ [''-r'', path_str w req_path])
                     None Inherited Inherited tr2
                 else
                   subprocess_run w (base_cmd w pip_executable @ REQUIRED_PACKAGES)
                     None Inherited Inherited tr2) of
             (Raise e, tr3) \<Rightarrow>
               if isinstance_CalledProcessError e then
                 sys_exit 1 (print Stderr ''[Bootstrap] Error: Failed to install dependencies.'' tr3)
               else (Raise e, tr3)
           | r \<Rightarrow> r))"

definition restart_in_venv :: "world \<Rightarrow> path \<Rightarrow> trace \<Rightarrow> unit result \<times> trace" where
  "restart_in_venv w python_executable tr =
     (let env = AList.update ''GRADER_BOOTSTRAPPED'' ''1'' (os_environ w);
          args = [path_str w python_executable] @ sys_argv w
      in if sys_platform w = ''win32'' then
           (case subprocess_run w args (Some env) Inherited Inherited tr of
              (Return _, tr1) \<Rightarrow> sys_exit 0 tr1
            | r \<Rightarrow> r)
         else os_execv w (path_str w python_executable) args tr)"

text \<open>The loop \<open>for pkg in REQUIRED_IMPORTS: __import__(pkg)\<close>; the first exception
  leaves the loop.\<close>

fun import_all :: "world \<Rightarrow> string list \<Rightarrow> trace \<Rightarrow> unit result \<times> trace" where
  "import_all w [] tr = (Return (), tr)"
| "import_all w (pkg # pkgs) tr =
     (case import_outcome w tr pkg of
        None \<Rightarrow> import_all w pkgs (tr @ [Import pkg])
      | Some e \<Rightarrow> (Raise e, tr @ [Import pkg]))"

definition initialize :: "world \<Rightarrow> trace \<Rightarrow> unit result \<times> trace" where
  "initialize w tr =
     (case import_all w REQUIRED_IMPORTS tr of
        (Return _, tr1) \<Rightarrow> (Return (), tr1)
      | (Replaced, tr1) \<Rightarrow> (Replaced, tr1)
      | (Raise e, tr1) \<Rightarrow>
          if \<not> isinstance_ImportError e then (Raise e, tr1)
          else
            (let root_dir = script_dir w in
             case get_venv_paths w root_dir of
               (venv_dir, venv_python, venv_pip) \<Rightarrow>
                 let is_in_venv = (map_of (os_environ w) ''GRADER_BOOTSTRAPPED'' = Some ''1'') in
                 if is_in_venv then
                   install_dependencies w root_dir venv_pip
                     (print Stdout ''[Bootstrap] In venv but dependencies missing. Repairing...'' tr1)
                 else
                   (case create_venv_if_missing w venv_dir tr1 of
                      (Return _, tr2) \<Rightarrow>
                        (case check_venv_integrity w venv_python tr2 of
                           (Return ok, tr3) \<Rightarrow>
                             if \<not> ok then
                               (case install_dependencies w root_dir venv_pip tr3 of
                                  (Return _, tr4) \<Rightarrow> restart_in_venv w venv_python tr4
                                | r \<Rightarrow> r)
                             else restart_in_venv w venv_python tr3
                         | (Raise e', tr3) \<Rightarrow> (Raise e', tr3)
                         | (Replaced, tr3) \<Rightarrow> (Replaced, tr3))
                    | r \<Rightarrow> r)))"

subsection \<open>Observations on a trace\<close>

fun is_subprocess :: "event \<Rightarrow> bool" where
  "is_subprocess (SubprocessRun _ _ _ _) = True"
| "is_subprocess _ = False"

fun is_execv :: "event \<Rightarrow> bool" where
  "is_execv (Execv _ _ _) = True"
| "is_execv _ = False"

fun is_venv_create :: "event \<Rightarrow> bool" where
  "is_venv_create (VenvCreate _ _) = True"
| "is_venv_create _ = False"

text \<open>The first thing \<open>install_dependencies\<close> does is print its banner; a trace holds
  the banner once for every call of the installer.\<close>

definition installer_banner :: event where
  "installer_banner = Print Stdout ''[Bootstrap] Installing dependencies...''"

fun runs_executable :: "string \<Rightarrow> event \<Rightarrow> bool" where
  "runs_executable exe (SubprocessRun args _ _ _) =
     (case args of [] \<Rightarrow> False | x # _ \<Rightarrow> x = exe)"
| "runs_executable exe _ = False"

subsection \<open>Concrete worlds\<close>

text \<open>
  A POSIX host on which the script lives in \<open>/home/lab\<close>, every import succeeds, every
  path exists and every child exits 0. The examples below vary it field by field.
\<close>

definition base_world :: world where
  "base_world =
     \<lparr> sys_platform = ''linux'',
       sys_argv = [''grader.py'', ''--all''],
       os_environ = [(''HOME'', ''/root'')],
       script_dir = Path ''/'' [''home'', ''lab''],
       import_outcome = (\<lambda>tr pkg. None),
       fs_exists = (\<lambda>tr p. True),
       venv_create_outcome = (\<lambda>tr p. None),
       child_outcome = (\<lambda>tr args. Exited 0),
       execv_succeeds = (\<lambda>tr p args. True) \<rparr>"

text \<open>The same host after a handoff (the marker is set) with \<open>tomli\<close> still missing, and
  before any handoff (the marker is unset) with \<open>tomli\<close> missing.\<close>

definition repair_world :: world where
  "repair_world =
     base_world\<lparr> os_environ := [(''HOME'', ''/root''), (''GRADER_BOOTSTRAPPED'', ''1'')],
                 import_outcome :=
                   (\<lambda>tr pkg. if pkg = ''tomli'' then Some ModuleNotFoundError else None) \<rparr>"

definition outer_world :: world where
  "outer_world =
     base_world\<lparr> import_outcome :=
                   (\<lambda>tr pkg. if pkg = ''tomli'' then Some ModuleNotFoundError else None) \<rparr>"

text \<open>A Windows host: the script lives in the directory \<open>lab\<close> of drive \<open>C:\<close> (the character
  \<open>0x5C\<close> is the backslash).\<close>

definition win_world :: world where
  "win_world =
     base_world\<lparr> sys_platform := ''win32'', script_dir := Path (''C:'' @ [CHR 0x5C]) [''lab''] \<rparr>"

text \<open>The Windows host with a child that exits with status 3, and the host after a handoff
  with a package manager that exits with status 1.\<close>

definition win_child_fails_world :: world where
  "win_child_fails_world = win_world\<lparr> child_outcome := (\<lambda>tr args. Exited 3) \<rparr>"

definition repair_pip_fails_world :: world where
  "repair_pip_fails_world = repair_world\<lparr> child_outcome := (\<lambda>tr args. Exited 1) \<rparr>"

definition posix_python :: path where
  "posix_python = Path ''/'' [''home'', ''lab'', ''.venv'', ''bin'', ''python'']"

definition posix_pip :: path where
  "posix_pip = Path ''/'' [''home'', ''lab'', ''.venv'', ''bin'', ''pip'']"

definition win_python :: path where
  "win_python = Path (''C:'' @ [CHR 0x5C]) [''lab'', ''.venv'', ''Scripts'', ''python.exe'']"

section \<open>Basic facts about the calls\<close>

lemma subprocess_run_Cons:
  "subprocess_run w (exe # rest) env out err tr =
     (if \<not> fs_exists w tr exe then Raise FileNotFoundError
      else case child_outcome w tr (exe # rest) of
             LaunchFailed \<Rightarrow> Raise OSError
           | Exited rc \<Rightarrow> if rc = 0 then Return () else Raise (CalledProcessError rc (exe # rest)),
      tr @ [SubprocessRun (exe # rest) env out err])"
  by (simp add: subprocess_run_def Let_def split: spawn_outcome.splits)

text \<open>The import loop only ever adds \<open>Import\<close> events, one for each capability tried.\<close>

lemma import_all_trace:
  "\<exists>n. snd (import_all w pkgs tr) = tr @ map Import (take n pkgs)"
proof (induction pkgs arbitrary: tr)
  case Nil
  then show ?case by simp
next
  case (Cons pkg pkgs)
  show ?case
  proof (cases "import_outcome w tr pkg")
    case None
    obtain n where
      "snd (import_all w pkgs (tr @ [Import pkg])) = (tr @ [Import pkg]) @ map Import (take n pkgs)"
      using Cons.IH by blast
    then have "snd (import_all w (pkg # pkgs) tr) = tr @ map Import (take (Suc n) (pkg # pkgs))"
      using None by simp
    then show ?thesis by blast
  next
    case (Some e)
    then have "snd (import_all w (pkg # pkgs) tr) = tr @ map Import (take (Suc 0) (pkg # pkgs))"
      by simp
    then show ?thesis by blast
  qed
qed

lemma import_all_Return:
  "import_all w pkgs tr = (Return u, tr') \<Longrightarrow> tr' = tr @ map Import pkgs"
proof (induction pkgs arbitrary: tr)
  case Nil
  then show ?case by simp
next
  case (Cons pkg pkgs)
  from Cons.prems have ok: "import_outcome w tr pkg = None"
    by (simp split: option.splits)
  with Cons.prems have "import_all w pkgs (tr @ [Import pkg]) = (Return u, tr')"
    by simp
  from Cons.IH [OF this] show ?case by simp
qed

lemma import_all_not_Replaced:
  "fst (import_all w pkgs tr) \<noteq> Replaced"
  by (induction pkgs arbitrary: tr) (simp_all split: option.splits)

lemma str_join_snoc:
  "xs \<noteq> [] \<Longrightarrow> str_join sep (xs @ [a]) = str_join sep xs @ sep @ a"
  by (induction sep xs rule: str_join.induct) simp_all

lemma str_join_snoc3:
  "str_join sep (xs @ [a, b, c]) = str_join sep (xs @ [a, b]) @ sep @ c"
  using str_join_snoc [of "xs @ [a, b]" sep c] by simp

text \<open>The interpreter and the package manager of one environment are different files.\<close>

lemma venv_python_neq_pip:
  assumes "get_venv_paths w root = (venv_dir, venv_python, venv_pip)"
  shows "path_str w venv_python \<noteq> path_str w venv_pip"
  using assms
  by (auto simp add: get_venv_paths_def Let_def path_join_def path_str_def str_join_snoc3
      split: if_splits)

text \<open>What each function adds to the trace.\<close>

lemma create_venv_if_missing_trace:
  "snd (create_venv_if_missing w d tr) =
     tr @ PathExists (path_str w d) #
       (if fs_exists w tr (path_str w d) then []
        else [Print Stdout (''[Bootstrap] Creating virtual environment at: '' @ path_str w d @ ''...''),
              VenvCreate (path_str w d) True])"
  by (simp add: create_venv_if_missing_def path_exists_def venv_create_def print_def Let_def
      split: option.splits)

lemma check_venv_integrity_trace:
  "snd (check_venv_integrity w p tr) =
     tr @ PathExists (path_str w p) #
       (if fs_exists w tr (path_str w p)
        then [SubprocessRun [path_str w p, ''-c'', check_script] None DEVNULL DEVNULL]
        else [])"
  by (simp add: check_venv_integrity_def path_exists_def subprocess_run_Cons
      split: spawn_outcome.splits)

lemma restart_in_venv_trace:
  "snd (restart_in_venv w p tr) =
     tr @ [if sys_platform w = ''win32''
           then SubprocessRun (path_str w p # sys_argv w)
                  (Some (AList.update ''GRADER_BOOTSTRAPPED'' ''1'' (os_environ w)))
                  Inherited Inherited
           else Execv (path_str w p) (path_str w p # sys_argv w) (os_environ w)]"
  by (simp add: restart_in_venv_def subprocess_run_Cons os_execv_def sys_exit_def Let_def
      split: spawn_outcome.splits)

text \<open>The installer, case by case: the executable is missing, the launch fails, the
  package manager exits with 0, or with something else.\<close>

lemma install_dependencies_eq:
  "install_dependencies w root pip tr =
     (let req = path_str w (path_join root REQUIREMENTS_FILE);
          tr1 = tr @ [installer_banner];
          tr2 = tr1 @ [PathExists req];
          cmd = base_cmd w pip @ (if fs_exists w tr1 req then [''-r'', req] else REQUIRED_PACKAGES);
          tr3 = tr2 @ [SubprocessRun cmd None Inherited Inherited]
      in if \<not> fs_exists w tr2 (path_str w pip) then (Raise FileNotFoundError, tr3)
         else case child_outcome w tr2 cmd of
                LaunchFailed \<Rightarrow> (Raise OSError, tr3)
              | Exited rc \<Rightarrow>
                  if rc = 0 then (Return (), tr3)
                  else (Raise (SystemExit 1),
                        tr3 @ [Print Stderr ''[Bootstrap] Error: Failed to install dependencies.'']))"
proof -
  obtain rest where b: "base_cmd w pip = path_str w pip # rest"
    by (simp add: base_cmd_def)
  show ?thesis
    unfolding install_dependencies_def path_exists_def print_def sys_exit_def installer_banner_def
      Let_def b
    by (simp add: subprocess_run_Cons split: spawn_outcome.splits)
qed

text \<open>The two branches of the orchestrator after a failed fast path.\<close>

lemma initialize_repair_path:
  assumes "import_all w REQUIRED_IMPORTS tr = (Raise e, tr1)"
    and "isinstance_ImportError e"
    and "map_of (os_environ w) ''GRADER_BOOTSTRAPPED'' = Some ''1''"
    and "get_venv_paths w (script_dir w) = (venv_dir, venv_python, venv_pip)"
  shows "initialize w tr =
           install_dependencies w (script_dir w) venv_pip
             (tr1 @ [Print Stdout ''[Bootstrap] In venv but dependencies missing. Repairing...''])"
  using assms by (simp add: initialize_def print_def)

lemma initialize_handoff_path:
  assumes "import_all w REQUIRED_IMPORTS tr = (Raise e, tr1)"
    and "isinstance_ImportError e"
    and "map_of (os_environ w) ''GRADER_BOOTSTRAPPED'' \<noteq> Some ''1''"
    and "get_venv_paths w (script_dir w) = (venv_dir, venv_python, venv_pip)"
    and "create_venv_if_missing w venv_dir tr1 = (Return u, tr2)"
    and "check_venv_integrity w venv_python tr2 = (Return True, tr3)"
  shows "initialize w tr = restart_in_venv w venv_python tr3"
  using assms by (simp add: initialize_def)

section \<open>EnvironmentProvisioner\<close>

text \<open>
  Claim C7. On a directory that already exists, \<open>create_venv_if_missing\<close> is a no-op: it
  returns normally, and the only thing it does is the one existence query on the directory
  itself (no creation, no message, no look at what the directory holds). The statement
  holds for every trace so far, hence also for a second call after a first one.
\<close>

theorem create_venv_if_missing_existing_noop:
  assumes "fs_exists w tr (path_str w venv_dir)"
  shows "create_venv_if_missing w venv_dir tr
           = (Return (), tr @ [PathExists (path_str w venv_dir)])"
  using assms by (simp add: create_venv_if_missing_def path_exists_def)

theorem create_venv_if_missing_existing_noop_witness:
  "fs_exists base_world [] ''/home/lab/.venv''
   \<and> create_venv_if_missing base_world (Path ''/'' [''home'', ''lab'', ''.venv'']) []
       = (Return (), [PathExists ''/home/lab/.venv''])"
  using create_venv_if_missing_existing_noop
          [of base_world "[]" "Path ''/'' [''home'', ''lab'', ''.venv'']"]
  by (simp add: base_world_def path_str_def path_sep_def)

section \<open>IntegrityVerifier\<close>

text \<open>
  Claim C4. When the interpreter path does not exist, \<open>check_venv_integrity\<close> returns
  \<open>False\<close> and the only event is the existence query: nothing is spawned. When the path
  exists, exactly one subprocess is run: that interpreter with \<open>-c\<close> and the script that
  imports every required capability, both output streams sent to \<open>DEVNULL\<close>. The answer
  is \<open>True\<close> exactly when the child was launched and exited with status 0, and \<open>False\<close>
  for every non-zero status.
\<close>

theorem check_venv_integrity_correct:
  fixes w p tr
  defines "exe \<equiv> path_str w p"
    and "tr1 \<equiv> tr @ [PathExists (path_str w p)]"
    and "cmd \<equiv> [path_str w p, ''-c'', ''import rich; import tomli'']"
  shows "(\<not> fs_exists w tr exe \<longrightarrow> check_venv_integrity w p tr = (Return False, tr1))
       \<and> (fs_exists w tr exe \<longrightarrow>
            snd (check_venv_integrity w p tr) = tr1 @ [SubprocessRun cmd None DEVNULL DEVNULL]
          \<and> (fst (check_venv_integrity w p tr) = Return True
               \<longleftrightarrow> fs_exists w tr1 exe \<and> child_outcome w tr1 cmd = Exited 0)
          \<and> (\<forall>rc. fs_exists w tr1 exe \<and> child_outcome w tr1 cmd = Exited rc \<and> rc \<noteq> 0
               \<longrightarrow> fst (check_venv_integrity w p tr) = Return False))"
  unfolding exe_def tr1_def cmd_def
  by (simp add: check_venv_integrity_def path_exists_def subprocess_run_Cons check_script_def
      REQUIRED_IMPORTS_def split: spawn_outcome.splits)

theorem check_venv_integrity_correct_witness:
  "check_venv_integrity (base_world\<lparr>fs_exists := (\<lambda>tr p. False)\<rparr>) posix_python []
     = (Return False, [PathExists ''/home/lab/.venv/bin/python''])
   \<and> check_venv_integrity base_world posix_python []
     = (Return True,
        [PathExists ''/home/lab/.venv/bin/python'',
         SubprocessRun [''/home/lab/.venv/bin/python'', ''-c'', ''import rich; import tomli'']
           None DEVNULL DEVNULL])
   \<and> fst (check_venv_integrity (base_world\<lparr>child_outcome := (\<lambda>tr args. Exited 1)\<rparr>)
            posix_python []) = Return False"
  using check_venv_integrity_correct
          [of "base_world\<lparr>fs_exists := (\<lambda>tr p. False)\<rparr>" "[]" posix_python]
        check_venv_integrity_correct
          [of base_world "[]" posix_python]
        check_venv_integrity_correct
          [of "base_world\<lparr>child_outcome := (\<lambda>tr args. Exited 1)\<rparr>" "[]" posix_python]
  by (simp add: base_world_def posix_python_def path_str_def path_sep_def prod_eq_iff)

section \<open>DependencyInstaller\<close>

text \<open>
  Claim C5. \<open>install_dependencies\<close> runs exactly one subprocess, whatever happens: the
  package manager with \<open>install\<close>, the flag that disables the version check, \<open>-i\<close> and
  the mirror, followed by \<open>-r\<close> and the manifest when the manifest exists, and by the
  hardcoded packages otherwise. When the package manager exits non-zero, the diagnostic
  goes to the error stream and the process ends through \<open>sys.exit(1)\<close>; there is no second
  run.
\<close>

theorem install_dependencies_correct:
  fixes w root pip tr
  defines "req \<equiv> path_str w (path_join root REQUIREMENTS_FILE)"
    and "tr1 \<equiv> tr @ [Print Stdout ''[Bootstrap] Installing dependencies...'']"
  defines "tr2 \<equiv> tr1 @ [PathExists req]"
    and "cmd \<equiv> [path_str w pip, ''install'', ''--disable-pip-version-check'',
                 ''-i'', ''https://pypi.tuna.tsinghua.edu.cn/simple'']
                @ (if fs_exists w tr1 req then [''-r'', req] else [''rich'', ''tomli''])"
  shows "filter is_subprocess (drop (length tr) (snd (install_dependencies w root pip tr)))
           = [SubprocessRun cmd None Inherited Inherited]
       \<and> (\<forall>rc. fs_exists w tr2 (path_str w pip) \<and> child_outcome w tr2 cmd = Exited rc \<and> rc \<noteq> 0
            \<longrightarrow> install_dependencies w root pip tr
                 = (Raise (SystemExit 1),
                    tr2 @ [SubprocessRun cmd None Inherited Inherited,
                           Print Stderr ''[Bootstrap] Error: Failed to install dependencies.'']))"
proof -
  have cmd: "cmd = base_cmd w pip @ (if fs_exists w tr1 req then [''-r'', req] else REQUIRED_PACKAGES)"
    by (simp add: cmd_def base_cmd_def REQUIRED_PACKAGES_def)
  have tr1: "tr1 = tr @ [installer_banner]"
    by (simp add: tr1_def installer_banner_def)
  have eq: "install_dependencies w root pip tr =
     (if \<not> fs_exists w tr2 (path_str w pip)
      then (Raise FileNotFoundError, tr2 @ [SubprocessRun cmd None Inherited Inherited])
      else case child_outcome w tr2 cmd of
             LaunchFailed \<Rightarrow> (Raise OSError, tr2 @ [SubprocessRun cmd None Inherited Inherited])
           | Exited rc \<Rightarrow>
               if rc = 0 then (Return (), tr2 @ [SubprocessRun cmd None Inherited Inherited])
               else (Raise (SystemExit 1),
                     tr2 @ [SubprocessRun cmd None Inherited Inherited,
                            Print Stderr ''[Bootstrap] Error: Failed to install dependencies.'']))"
    unfolding install_dependencies_eq Let_def cmd tr2_def tr1 req_def
    by (simp split: spawn_outcome.splits)
  have ext: "tr2 = tr @ [Print Stdout ''[Bootstrap] Installing dependencies...'', PathExists req]"
    by (simp add: tr2_def tr1_def)
  have one: "filter is_subprocess (drop (length tr) (snd (install_dependencies w root pip tr)))
           = [SubprocessRun cmd None Inherited Inherited]"
    unfolding eq ext by (simp split: spawn_outcome.splits)
  have fatal: "install_dependencies w root pip tr
                 = (Raise (SystemExit 1),
                    tr2 @ [SubprocessRun cmd None Inherited Inherited,
                           Print Stderr ''[Bootstrap] Error: Failed to install dependencies.''])"
    if "fs_exists w tr2 (path_str w pip)" "child_outcome w tr2 cmd = Exited rc" "rc \<noteq> 0" for rc
    unfolding eq using that by simp
  from one fatal show ?thesis by blast
qed

theorem install_dependencies_correct_witness:
  "install_dependencies (base_world\<lparr>child_outcome := (\<lambda>tr args. Exited 2)\<rparr>)
      (Path ''/'' [''home'', ''lab'']) posix_pip []
     = (Raise (SystemExit 1),
        [Print Stdout ''[Bootstrap] Installing dependencies...'',
         PathExists ''/home/lab/requirements.txt'',
         SubprocessRun
           [''/home/lab/.venv/bin/pip'', ''install'', ''--disable-pip-version-check'', ''-i'',
            ''https://pypi.tuna.tsinghua.edu.cn/simple'', ''-r'', ''/home/lab/requirements.txt'']
           None Inherited Inherited,
         Print Stderr ''[Bootstrap] Error: Failed to install dependencies.''])
   \<and> filter is_subprocess
       (snd (install_dependencies
               (base_world\<lparr>fs_exists := (\<lambda>tr p. p \<noteq> ''/home/lab/requirements.txt'')\<rparr>)
               (Path ''/'' [''home'', ''lab'']) posix_pip []))
     = [SubprocessRun
          [''/home/lab/.venv/bin/pip'', ''install'', ''--disable-pip-version-check'', ''-i'',
           ''https://pypi.tuna.tsinghua.edu.cn/simple'', ''rich'', ''tomli'']
          None Inherited Inherited]"
  using install_dependencies_correct
          [where w = "base_world\<lparr>child_outcome := (\<lambda>tr args. Exited 2)\<rparr>"
             and root = "Path ''/'' [''home'', ''lab'']" and pip = posix_pip and tr = "[]"]
        install_dependencies_correct
          [where w = "base_world\<lparr>fs_exists := (\<lambda>tr p. p \<noteq> ''/home/lab/requirements.txt'')\<rparr>"
             and root = "Path ''/'' [''home'', ''lab'']" and pip = posix_pip and tr = "[]"]
  by (simp add: base_world_def posix_pip_def path_str_def path_sep_def path_join_def
      REQUIREMENTS_FILE_def)

text \<open>
  Claim C10. When the package manager's executable does not exist at the moment
  \<open>install_dependencies\<close> launches it, the launch raises \<open>FileNotFoundError\<close> (an
  \<open>OSError\<close>), which the \<open>except CalledProcessError\<close> clause does not catch: the
  exception leaves the function, nothing is written to the error stream and \<open>sys.exit(1)\<close>
  is not reached. The example after the theorem reaches this on the repair path, where
  nothing has provisioned or verified the environment before.
\<close>

theorem install_dependencies_missing_pip:
  fixes w root pip tr
  defines "req \<equiv> path_str w (path_join root REQUIREMENTS_FILE)"
    and "tr1 \<equiv> tr @ [Print Stdout ''[Bootstrap] Installing dependencies...'']"
  defines "tr2 \<equiv> tr1 @ [PathExists req]"
    and "cmd \<equiv> [path_str w pip, ''install'', ''--disable-pip-version-check'',
                 ''-i'', ''https://pypi.tuna.tsinghua.edu.cn/simple'']
                @ (if fs_exists w tr1 req then [''-r'', req] else [''rich'', ''tomli''])"
  assumes missing: "\<not> fs_exists w tr2 (path_str w pip)"
  shows "install_dependencies w root pip tr
           = (Raise FileNotFoundError, tr2 @ [SubprocessRun cmd None Inherited Inherited])"
proof -
  have cmd: "cmd = base_cmd w pip @ (if fs_exists w tr1 req then [''-r'', req] else REQUIRED_PACKAGES)"
    by (simp add: cmd_def base_cmd_def REQUIRED_PACKAGES_def)
  have tr1: "tr1 = tr @ [installer_banner]"
    by (simp add: tr1_def installer_banner_def)
  show ?thesis
    using missing unfolding install_dependencies_eq Let_def cmd tr2_def tr1 req_def by simp
qed

theorem install_dependencies_missing_pip_witness:
  "initialize (repair_world\<lparr>fs_exists := (\<lambda>tr p. p \<noteq> ''/home/lab/.venv/bin/pip'')\<rparr>) []
     = (Raise FileNotFoundError,
        [Import ''rich'', Import ''tomli'',
         Print Stdout ''[Bootstrap] In venv but dependencies missing. Repairing...'',
         Print Stdout ''[Bootstrap] Installing dependencies...'',
         PathExists ''/home/lab/requirements.txt'',
         SubprocessRun
           [''/home/lab/.venv/bin/pip'', ''install'', ''--disable-pip-version-check'', ''-i'',
            ''https://pypi.tuna.tsinghua.edu.cn/simple'', ''-r'', ''/home/lab/requirements.txt'']
           None Inherited Inherited])"
proof -
  let ?w = "repair_world\<lparr>fs_exists := (\<lambda>tr p. p \<noteq> ''/home/lab/.venv/bin/pip'')\<rparr>"
  have imp: "import_all ?w REQUIRED_IMPORTS []
     = (Raise ModuleNotFoundError, [Import ''rich'', Import ''tomli''])"
    by (simp add: repair_world_def base_world_def REQUIRED_IMPORTS_def)
  have marker: "map_of (os_environ ?w) ''GRADER_BOOTSTRAPPED'' = Some ''1''"
    by (simp add: repair_world_def base_world_def)
  have paths: "get_venv_paths ?w (script_dir ?w)
                 = (Path ''/'' [''home'', ''lab'', ''.venv''], posix_python, posix_pip)"
    by (simp add: repair_world_def base_world_def get_venv_paths_def path_join_def
        VENV_DIR_NAME_def posix_python_def posix_pip_def)
  have step: "initialize ?w [] =
           install_dependencies ?w (script_dir ?w) posix_pip
             ([Import ''rich'', Import ''tomli''] @
              [Print Stdout ''[Bootstrap] In venv but dependencies missing. Repairing...''])"
    by (rule initialize_repair_path [OF imp _ marker paths]) simp
  show ?thesis
    unfolding step
    using install_dependencies_missing_pip
            [where w = ?w and root = "script_dir ?w" and pip = posix_pip
               and tr = "[Import ''rich'', Import ''tomli''] @
                         [Print Stdout ''[Bootstrap] In venv but dependencies missing. Repairing...'']"]
    by (simp add: repair_world_def base_world_def posix_pip_def path_str_def path_sep_def
        path_join_def REQUIREMENTS_FILE_def)
qed

section \<open>ProcessHandoff\<close>

text \<open>
  Claim C1, as the code has it. On \<open>win32\<close> the child is run with \<open>check=True\<close>. When the
  child was launched and exits with status 0, \<open>restart_in_venv\<close> ends the parent through
  \<open>sys.exit(0)\<close>. When the child exits with any other status, \<open>subprocess.run\<close> raises
  \<open>CalledProcessError\<close>; nothing catches it, and \<open>sys.exit(0)\<close> is not reached.
\<close>

theorem restart_in_venv_win32_exit:
  fixes w p tr rc
  defines "args \<equiv> path_str w p # sys_argv w"
  assumes win: "sys_platform w = ''win32''"
    and launched: "fs_exists w tr (path_str w p)" "child_outcome w tr args = Exited rc"
  shows "fst (restart_in_venv w p tr)
           = (if rc = 0 then Raise (SystemExit 0) else Raise (CalledProcessError rc args))"
  using win launched unfolding args_def
  by (simp add: restart_in_venv_def subprocess_run_Cons sys_exit_def)

theorem restart_in_venv_win32_exit_witness:
  "sys_platform win_world = ''win32''
   \<and> child_outcome win_world [] (path_str win_world win_python # sys_argv win_world) = Exited 0
   \<and> fst (restart_in_venv win_world win_python []) = Raise (SystemExit 0)"
  using restart_in_venv_win32_exit [of win_world "[]" win_python 0]
  by (simp add: win_world_def base_world_def)

text \<open>The claim as the spec words it (the parent ends with status 0 whatever the child's
  status) fails for a child that exits with status 3.\<close>

theorem restart_in_venv_win32_counterexample:
  "sys_platform win_child_fails_world = ''win32''
   \<and> child_outcome win_child_fails_world []
         (path_str win_child_fails_world win_python # sys_argv win_child_fails_world) = Exited 3
   \<and> fst (restart_in_venv win_child_fails_world win_python [])
       = Raise (CalledProcessError 3 [path_str win_world win_python, ''grader.py'', ''--all''])
   \<and> fst (restart_in_venv win_child_fails_world win_python []) \<noteq> Raise (SystemExit 0)"
  by (simp add: win_child_fails_world_def win_world_def base_world_def win_python_def
      restart_in_venv_def subprocess_run_Cons sys_exit_def path_str_def path_sep_def)

text \<open>
  Claim C6. The argument vector of the handoff is the interpreter followed by the original
  \<open>sys.argv\<close>, on both platforms, and on \<open>win32\<close> the child gets the environment with
  the marker added (the two lemmas below). On the other platforms the function builds the
  same environment and then calls \<open>os.execv\<close>, which takes none: the new image runs with
  \<open>os.environ\<close> as it is, without the marker. The theorem runs the function on a POSIX
  host whose environment holds only \<open>HOME\<close>.
\<close>

theorem restart_in_venv_posix_environment:
  "restart_in_venv base_world posix_python []
     = (Replaced,
        [Execv ''/home/lab/.venv/bin/python''
           [''/home/lab/.venv/bin/python'', ''grader.py'', ''--all'']
           [(''HOME'', ''/root'')]])
   \<and> map_of [(''HOME'', ''/root'')] ''GRADER_BOOTSTRAPPED'' = None"
  by (simp add: base_world_def posix_python_def restart_in_venv_def os_execv_def
      path_str_def path_sep_def)

lemma restart_in_venv_win32_environment:
  assumes "sys_platform w = ''win32''"
  shows "\<exists>env. snd (restart_in_venv w p tr)
                 = tr @ [SubprocessRun (path_str w p # sys_argv w) (Some env) Inherited Inherited]
             \<and> map_of env ''GRADER_BOOTSTRAPPED'' = Some ''1''
             \<and> (\<forall>k. k \<noteq> ''GRADER_BOOTSTRAPPED'' \<longrightarrow> map_of env k = map_of (os_environ w) k)"
  using assms by (simp add: restart_in_venv_trace update_conv')

lemma restart_in_venv_not_win32_environment:
  assumes "sys_platform w \<noteq> ''win32''"
  shows "snd (restart_in_venv w p tr)
           = tr @ [Execv (path_str w p) (path_str w p # sys_argv w) (os_environ w)]"
  using assms by (simp add: restart_in_venv_trace)

section \<open>The orchestrator\<close>

text \<open>
  Claim C8. When every required capability imports, \<open>initialize\<close> returns and its only
  events are the two imports: no subprocess, no process replacement, no creation of an
  environment.
\<close>

theorem initialize_fast_path:
  assumes "fst (import_all w REQUIRED_IMPORTS tr) = Return ()"
  shows "initialize w tr = (Return (), tr @ [Import ''rich'', Import ''tomli''])
       \<and> filter (\<lambda>ev. is_subprocess ev \<or> is_execv ev \<or> is_venv_create ev)
            (drop (length tr) (snd (initialize w tr))) = []"
proof -
  obtain tr1 where run: "import_all w REQUIRED_IMPORTS tr = (Return (), tr1)"
    using assms by (cases "import_all w REQUIRED_IMPORTS tr") simp
  from import_all_Return [OF run] have "tr1 = tr @ [Import ''rich'', Import ''tomli'']"
    by (simp add: REQUIRED_IMPORTS_def)
  with run show ?thesis by (simp add: initialize_def)
qed

theorem initialize_fast_path_witness:
  "fst (import_all base_world REQUIRED_IMPORTS []) = Return ()
   \<and> initialize base_world [] = (Return (), [Import ''rich'', Import ''tomli''])"
  using initialize_fast_path [of base_world "[]"]
  by (simp add: base_world_def REQUIRED_IMPORTS_def)

text \<open>
  Claim C9. When an import of the fast path raises an exception that is not an
  \<open>ImportError\<close> (nor a subclass of it), \<open>initialize\<close> raises that exception and its trace
  is the one of the import loop: neither the repair path nor the provisioning path starts.
\<close>

theorem initialize_propagates_other_exceptions:
  assumes "import_all w REQUIRED_IMPORTS tr = (Raise e, tr1)"
    and "\<not> isinstance_ImportError e"
  shows "initialize w tr = (Raise e, tr1)"
  using assms by (simp add: initialize_def)

theorem initialize_propagates_other_exceptions_witness:
  "\<not> isinstance_ImportError (OtherException ''SyntaxError'')
   \<and> initialize (base_world\<lparr>import_outcome := (\<lambda>tr pkg. Some (OtherException ''SyntaxError''))\<rparr>) []
       = (Raise (OtherException ''SyntaxError''), [Import ''rich''])"
  using initialize_propagates_other_exceptions
          [of "base_world\<lparr>import_outcome := (\<lambda>tr pkg. Some (OtherException ''SyntaxError''))\<rparr>"
              "[]" "OtherException ''SyntaxError''" "[Import ''rich'']"]
  by (simp add: base_world_def REQUIRED_IMPORTS_def)

text \<open>
  Claim C2, as the code has it. When the fast path fails with an \<open>ImportError\<close> and the
  marker is set, \<open>initialize\<close> prints the repair message and calls the installer once: the
  events after the imports are the two messages, the query for the manifest, one run of the
  package manager and, when that run exits non-zero, the diagnostic. There is no process
  replacement, no creation of an environment, and no other subprocess (so no handoff and
  no integrity check). \<open>initialize\<close> returns normally exactly when the package manager was
  launched and exited with status 0; a non-zero status ends the process through
  \<open>sys.exit(1)\<close>.
\<close>

theorem initialize_repair_in_place:
  fixes w tr tr1 e venv_dir venv_python venv_pip
  defines "req \<equiv> path_str w (path_join (script_dir w) REQUIREMENTS_FILE)"
    and "tr2 \<equiv> tr1 @ [Print Stdout ''[Bootstrap] In venv but dependencies missing. Repairing...'',
                      Print Stdout ''[Bootstrap] Installing dependencies...'']"
  defines "tr3 \<equiv> tr2 @ [PathExists req]"
    and "cmd \<equiv> [path_str w venv_pip, ''install'', ''--disable-pip-version-check'',
                 ''-i'', ''https://pypi.tuna.tsinghua.edu.cn/simple'']
                @ (if fs_exists w tr2 req then [''-r'', req] else [''rich'', ''tomli''])"
  assumes fails: "import_all w REQUIRED_IMPORTS tr = (Raise e, tr1)"
    and unavailable: "isinstance_ImportError e"
    and marker: "map_of (os_environ w) ''GRADER_BOOTSTRAPPED'' = Some ''1''"
    and paths: "get_venv_paths w (script_dir w) = (venv_dir, venv_python, venv_pip)"
  shows "snd (initialize w tr) =
           tr3 @ SubprocessRun cmd None Inherited Inherited #
             (if fst (initialize w tr) = Raise (SystemExit 1)
              then [Print Stderr ''[Bootstrap] Error: Failed to install dependencies.'']
              else [])
       \<and> (fst (initialize w tr) = Return ()
            \<longleftrightarrow> fs_exists w tr3 (path_str w venv_pip) \<and> child_outcome w tr3 cmd = Exited 0)
       \<and> (\<forall>rc. fs_exists w tr3 (path_str w venv_pip) \<and> child_outcome w tr3 cmd = Exited rc \<and> rc \<noteq> 0
            \<longrightarrow> fst (initialize w tr) = Raise (SystemExit 1))
       \<and> filter (\<lambda>ev. is_subprocess ev \<or> is_execv ev \<or> is_venv_create ev)
            (drop (length tr1) (snd (initialize w tr)))
           = [SubprocessRun cmd None Inherited Inherited]"
proof -
  have cmd: "cmd = base_cmd w venv_pip @ (if fs_exists w tr2 req then [''-r'', req] else REQUIRED_PACKAGES)"
    by (simp add: cmd_def base_cmd_def REQUIRED_PACKAGES_def)
  have tr2: "tr2 = (tr1 @ [Print Stdout ''[Bootstrap] In venv but dependencies missing. Repairing...''])
                   @ [installer_banner]"
    by (simp add: tr2_def installer_banner_def)
  have eq: "initialize w tr =
     (if \<not> fs_exists w tr3 (path_str w venv_pip)
      then (Raise FileNotFoundError, tr3 @ [SubprocessRun cmd None Inherited Inherited])
      else case child_outcome w tr3 cmd of
             LaunchFailed \<Rightarrow> (Raise OSError, tr3 @ [SubprocessRun cmd None Inherited Inherited])
           | Exited rc \<Rightarrow>
               if rc = 0 then (Return (), tr3 @ [SubprocessRun cmd None Inherited Inherited])
               else (Raise (SystemExit 1),
                     tr3 @ [SubprocessRun cmd None Inherited Inherited,
                            Print Stderr ''[Bootstrap] Error: Failed to install dependencies.'']))"
    unfolding initialize_repair_path [OF fails unavailable marker paths]
      install_dependencies_eq Let_def cmd tr3_def tr2 req_def
    by (simp split: spawn_outcome.splits)
  have ext: "tr3 = tr1 @ [Print Stdout ''[Bootstrap] In venv but dependencies missing. Repairing...'',
                          Print Stdout ''[Bootstrap] Installing dependencies...'', PathExists req]"
    by (simp add: tr3_def tr2_def)
  have only: "filter (\<lambda>ev. is_subprocess ev \<or> is_execv ev \<or> is_venv_create ev)
            (drop (length tr1) (snd (initialize w tr)))
           = [SubprocessRun cmd None Inherited Inherited]"
    unfolding eq ext by (simp split: spawn_outcome.splits)
  have rest: "snd (initialize w tr) =
           tr3 @ SubprocessRun cmd None Inherited Inherited #
             (if fst (initialize w tr) = Raise (SystemExit 1)
              then [Print Stderr ''[Bootstrap] Error: Failed to install dependencies.'']
              else [])
       \<and> (fst (initialize w tr) = Return ()
            \<longleftrightarrow> fs_exists w tr3 (path_str w venv_pip) \<and> child_outcome w tr3 cmd = Exited 0)
       \<and> (\<forall>rc. fs_exists w tr3 (path_str w venv_pip) \<and> child_outcome w tr3 cmd = Exited rc \<and> rc \<noteq> 0
            \<longrightarrow> fst (initialize w tr) = Raise (SystemExit 1))"
    unfolding eq by (simp split: spawn_outcome.splits)
  from rest only show ?thesis by blast
qed

theorem initialize_repair_in_place_witness:
  "import_all repair_world REQUIRED_IMPORTS []
     = (Raise ModuleNotFoundError, [Import ''rich'', Import ''tomli''])
   \<and> map_of (os_environ repair_world) ''GRADER_BOOTSTRAPPED'' = Some ''1''
   \<and> initialize repair_world []
     = (Return (),
        [Import ''rich'', Import ''tomli'',
         Print Stdout ''[Bootstrap] In venv but dependencies missing. Repairing...'',
         Print Stdout ''[Bootstrap] Installing dependencies...'',
         PathExists ''/home/lab/requirements.txt'',
         SubprocessRun
           [''/home/lab/.venv/bin/pip'', ''install'', ''--disable-pip-version-check'', ''-i'',
            ''https://pypi.tuna.tsinghua.edu.cn/simple'', ''-r'', ''/home/lab/requirements.txt'']
           None Inherited Inherited])"
  using initialize_repair_in_place
          [where w = repair_world and tr = "[]" and e = ModuleNotFoundError
             and ?tr1.0 = "[Import ''rich'', Import ''tomli'']"
             and venv_dir = "Path ''/'' [''home'', ''lab'', ''.venv'']"
             and venv_python = posix_python and venv_pip = posix_pip]
  by (simp add: repair_world_def base_world_def posix_python_def posix_pip_def
      REQUIRED_IMPORTS_def REQUIREMENTS_FILE_def VENV_DIR_NAME_def get_venv_paths_def
      path_str_def path_sep_def path_join_def prod_eq_iff)

text \<open>The claim as the spec words it (the function returns normally on every such run)
  fails when the package manager exits with status 1.\<close>

theorem initialize_repair_counterexample:
  "import_all repair_pip_fails_world REQUIRED_IMPORTS []
     = (Raise ModuleNotFoundError, [Import ''rich'', Import ''tomli''])
   \<and> map_of (os_environ repair_pip_fails_world) ''GRADER_BOOTSTRAPPED'' = Some ''1''
   \<and> fst (initialize repair_pip_fails_world []) = Raise (SystemExit 1)
   \<and> fst (initialize repair_pip_fails_world []) \<noteq> Return ()"
proof -
  have imp: "import_all repair_pip_fails_world REQUIRED_IMPORTS []
     = (Raise ModuleNotFoundError, [Import ''rich'', Import ''tomli''])"
    by (simp add: repair_pip_fails_world_def repair_world_def base_world_def REQUIRED_IMPORTS_def)
  have marker: "map_of (os_environ repair_pip_fails_world) ''GRADER_BOOTSTRAPPED'' = Some ''1''"
    by (simp add: repair_pip_fails_world_def repair_world_def base_world_def)
  have paths: "get_venv_paths repair_pip_fails_world (script_dir repair_pip_fails_world)
                 = (Path ''/'' [''home'', ''lab'', ''.venv''], posix_python, posix_pip)"
    by (simp add: repair_pip_fails_world_def repair_world_def base_world_def get_venv_paths_def
        path_join_def VENV_DIR_NAME_def posix_python_def posix_pip_def)
  have step: "initialize repair_pip_fails_world [] =
           install_dependencies repair_pip_fails_world (script_dir repair_pip_fails_world) posix_pip
             ([Import ''rich'', Import ''tomli''] @
              [Print Stdout ''[Bootstrap] In venv but dependencies missing. Repairing...''])"
    by (rule initialize_repair_path [OF imp _ marker paths]) simp
  have "fst (initialize repair_pip_fails_world []) = Raise (SystemExit 1)"
    unfolding step install_dependencies_eq
    by (simp add: repair_pip_fails_world_def repair_world_def base_world_def Let_def)
  with imp marker show ?thesis by simp
qed

text \<open>
  Claim C3. When the fast path fails with an \<open>ImportError\<close>, the marker is unset, the
  provisioner has returned and the verifier answers \<open>True\<close>, \<open>initialize\<close> goes on as
  \<open>restart_in_venv\<close> does: the next and last event is the handoff (the child run on
  \<open>win32\<close>, \<open>os.execv\<close> elsewhere) and the run ends as the handoff ends. Where the
  interpreter exists, that is the replaced image when \<open>os.execv\<close> succeeds, and on
  \<open>win32\<close> \<open>sys.exit(0)\<close> after a child that exits 0 and \<open>CalledProcessError\<close> after any
  other child; a launch that fails raises. In no case does \<open>initialize\<close> return to its
  caller. Among all events of the run there is neither the installer's banner nor a run
  of the package manager.
\<close>

theorem initialize_verified_handoff:
  fixes w tr tr1 tr2 tr3 e venv_dir venv_python venv_pip
  defines "handoff \<equiv>
     (if sys_platform w = ''win32''
      then SubprocessRun (path_str w venv_python # sys_argv w)
             (Some (AList.update ''GRADER_BOOTSTRAPPED'' ''1'' (os_environ w)))
             Inherited Inherited
      else Execv (path_str w venv_python) (path_str w venv_python # sys_argv w) (os_environ w))"
    and "outcome \<equiv>
     (if \<not> fs_exists w tr3 (path_str w venv_python) then Raise FileNotFoundError
      else if sys_platform w = ''win32'' then
        (case child_outcome w tr3 (path_str w venv_python # sys_argv w) of
           LaunchFailed \<Rightarrow> Raise OSError
         | Exited rc \<Rightarrow>
             if rc = 0 then Raise (SystemExit 0)
             else Raise (CalledProcessError rc (path_str w venv_python # sys_argv w)))
      else if execv_succeeds w tr3 (path_str w venv_python) (path_str w venv_python # sys_argv w)
        then Replaced
      else Raise OSError)"
  assumes fails: "import_all w REQUIRED_IMPORTS tr = (Raise e, tr1)"
    and unavailable: "isinstance_ImportError e"
    and marker: "map_of (os_environ w) ''GRADER_BOOTSTRAPPED'' \<noteq> Some ''1''"
    and paths: "get_venv_paths w (script_dir w) = (venv_dir, venv_python, venv_pip)"
    and provisioned: "create_venv_if_missing w venv_dir tr1 = (Return (), tr2)"
    and satisfied: "check_venv_integrity w venv_python tr2 = (Return True, tr3)"
  shows "snd (initialize w tr) = tr3 @ [handoff]
       \<and> (\<forall>ev \<in> set (drop (length tr) (snd (initialize w tr))).
             ev \<noteq> installer_banner \<and> \<not> runs_executable (path_str w venv_pip) ev)
       \<and> initialize w tr = restart_in_venv w venv_python tr3
       \<and> fst (initialize w tr) = outcome
       \<and> fst (initialize w tr) \<noteq> Return ()"
proof -
  have same: "initialize w tr = restart_in_venv w venv_python tr3"
    by (rule initialize_handoff_path [OF fails unavailable marker paths provisioned satisfied])
  have "fst (restart_in_venv w venv_python tr3) = outcome"
    unfolding outcome_def
    by (simp add: restart_in_venv_def subprocess_run_Cons os_execv_def sys_exit_def Let_def
        split: spawn_outcome.splits)
  with same have ends: "fst (initialize w tr) = outcome"
    by simp
  have "outcome \<noteq> Return ()"
    unfolding outcome_def by (simp split: spawn_outcome.splits)
  with ends have never: "fst (initialize w tr) \<noteq> Return ()"
    by simp
  have neq: "path_str w venv_python \<noteq> path_str w venv_pip"
    by (rule venv_python_neq_pip [OF paths])
  have final: "snd (initialize w tr) = tr3 @ [handoff]"
    unfolding initialize_handoff_path [OF fails unavailable marker paths provisioned satisfied]
      restart_in_venv_trace handoff_def by simp
  obtain n where "snd (import_all w REQUIRED_IMPORTS tr) = tr @ map Import (take n REQUIRED_IMPORTS)"
    using import_all_trace by blast
  with fails have tr1: "tr1 = tr @ map Import (take n REQUIRED_IMPORTS)"
    by simp
  have "snd (create_venv_if_missing w venv_dir tr1) = tr2"
    using provisioned by simp
  then obtain evs2 where tr2: "tr2 = tr1 @ evs2"
    and evs2: "\<forall>ev \<in> set evs2. \<not> is_subprocess ev \<and> ev \<noteq> installer_banner"
    unfolding create_venv_if_missing_trace
    by (cases "fs_exists w tr1 (path_str w venv_dir)") (auto simp add: installer_banner_def)
  have "snd (check_venv_integrity w venv_python tr2) = tr3"
    using satisfied by simp
  then obtain evs3 where tr3: "tr3 = tr2 @ evs3"
    and evs3: "\<forall>ev \<in> set evs3. ev \<noteq> installer_banner \<and> \<not> runs_executable (path_str w venv_pip) ev"
    unfolding check_venv_integrity_trace using neq
    by (cases "fs_exists w tr2 (path_str w venv_python)") (auto simp add: installer_banner_def)
  have evs2': "\<forall>ev \<in> set evs2. ev \<noteq> installer_banner \<and> \<not> runs_executable (path_str w venv_pip) ev"
  proof
    fix ev assume "ev \<in> set evs2"
    with evs2 have "\<not> is_subprocess ev" and "ev \<noteq> installer_banner" by auto
    then show "ev \<noteq> installer_banner \<and> \<not> runs_executable (path_str w venv_pip) ev"
      by (cases ev) simp_all
  qed
  have hand: "handoff \<noteq> installer_banner \<and> \<not> runs_executable (path_str w venv_pip) handoff"
    using neq by (simp add: handoff_def installer_banner_def)
  have imps: "\<forall>ev \<in> set (map Import (take n REQUIRED_IMPORTS)).
                   ev \<noteq> installer_banner \<and> \<not> runs_executable (path_str w venv_pip) ev"
    by (auto simp add: installer_banner_def)
  have new: "drop (length tr) (snd (initialize w tr))
               = map Import (take n REQUIRED_IMPORTS) @ evs2 @ evs3 @ [handoff]"
    unfolding final tr3 tr2 tr1 by simp
  have quiet: "\<forall>ev \<in> set (drop (length tr) (snd (initialize w tr))).
             ev \<noteq> installer_banner \<and> \<not> runs_executable (path_str w venv_pip) ev"
    unfolding new using imps evs2' evs3 hand by auto
  from final quiet same ends never show ?thesis by blast
qed

theorem initialize_verified_handoff_witness:
  "import_all outer_world REQUIRED_IMPORTS []
     = (Raise ModuleNotFoundError, [Import ''rich'', Import ''tomli''])
   \<and> map_of (os_environ outer_world) ''GRADER_BOOTSTRAPPED'' \<noteq> Some ''1''
   \<and> fst (check_venv_integrity outer_world posix_python
            [Import ''rich'', Import ''tomli'', PathExists ''/home/lab/.venv'']) = Return True
   \<and> snd (initialize outer_world [])
     = [Import ''rich'', Import ''tomli'',
        PathExists ''/home/lab/.venv'',
        PathExists ''/home/lab/.venv/bin/python'',
        SubprocessRun [''/home/lab/.venv/bin/python'', ''-c'', ''import rich; import tomli'']
          None DEVNULL DEVNULL,
        Execv ''/home/lab/.venv/bin/python''
          [''/home/lab/.venv/bin/python'', ''grader.py'', ''--all'']
          [(''HOME'', ''/root'')]]
   \<and> fst (initialize outer_world []) = Replaced"
proof -
  have imp: "import_all outer_world REQUIRED_IMPORTS []
     = (Raise ModuleNotFoundError, [Import ''rich'', Import ''tomli''])"
    by (simp add: outer_world_def base_world_def REQUIRED_IMPORTS_def)
  have unavailable: "isinstance_ImportError ModuleNotFoundError"
    by simp
  have marker: "map_of (os_environ outer_world) ''GRADER_BOOTSTRAPPED'' \<noteq> Some ''1''"
    by (simp add: outer_world_def base_world_def)
  have paths: "get_venv_paths outer_world (script_dir outer_world)
                 = (Path ''/'' [''home'', ''lab'', ''.venv''], posix_python, posix_pip)"
    by (simp add: outer_world_def base_world_def get_venv_paths_def path_join_def
        VENV_DIR_NAME_def posix_python_def posix_pip_def)
  have prov: "create_venv_if_missing outer_world (Path ''/'' [''home'', ''lab'', ''.venv''])
                [Import ''rich'', Import ''tomli'']
              = (Return (), [Import ''rich'', Import ''tomli'', PathExists ''/home/lab/.venv''])"
    by (simp add: outer_world_def base_world_def create_venv_if_missing_def path_exists_def
        path_str_def path_sep_def)
  have sat: "check_venv_integrity outer_world posix_python
               [Import ''rich'', Import ''tomli'', PathExists ''/home/lab/.venv'']
             = (Return True,
                [Import ''rich'', Import ''tomli'', PathExists ''/home/lab/.venv'',
                 PathExists ''/home/lab/.venv/bin/python'',
                 SubprocessRun [''/home/lab/.venv/bin/python'', ''-c'', ''import rich; import tomli'']
                   None DEVNULL DEVNULL])"
    by (simp add: outer_world_def base_world_def check_venv_integrity_def path_exists_def
        subprocess_run_Cons check_script_def REQUIRED_IMPORTS_def posix_python_def
        path_str_def path_sep_def)
  note run = initialize_verified_handoff [OF imp unavailable marker paths prov sat]
  from run [THEN conjunct1] have trace: "snd (initialize outer_world [])
     = [Import ''rich'', Import ''tomli'',
        PathExists ''/home/lab/.venv'',
        PathExists ''/home/lab/.venv/bin/python'',
        SubprocessRun [''/home/lab/.venv/bin/python'', ''-c'', ''import rich; import tomli'']
          None DEVNULL DEVNULL,
        Execv ''/home/lab/.venv/bin/python''
          [''/home/lab/.venv/bin/python'', ''grader.py'', ''--all'']
          [(''HOME'', ''/root'')]]"
    by (simp add: outer_world_def base_world_def posix_python_def path_str_def path_sep_def)
  from run [THEN conjunct2, THEN conjunct2, THEN conjunct2, THEN conjunct1]
  have replaced: "fst (initialize outer_world []) = Replaced"
    by (simp add: outer_world_def base_world_def)
  from imp marker sat trace replaced show ?thesis by simp
qed

end
